theory Spec2Isabelle
  imports Complex_Main
begin

section \<open>Numbers\<close>

text \<open>
  The analytics of \<^verbatim>\<open>src/fetchers/alpha-vantage.ts\<close> compute on JavaScript numbers, which
  are IEEE doubles with NaN and the infinities. Their arithmetic is not rebuilt here:
  the functions below take the operations of the number type as a parameter and use
  them where and in the order the source does. What is proved holds for every
  number type, so for the doubles with their rounding, their division by zero and
  their NaN as well.

  \<open>num_lit\<close> is a whole-number literal (or an array length) as a number, \<open>num_lt a b\<close>
  is \<^verbatim>\<open>a < b\<close>; the source's \<^verbatim>\<open>a > b\<close> is \<open>num_lt b a\<close>.
\<close>

record 'n arith =
  num_lit :: "int \<Rightarrow> 'n"
  num_add :: "'n \<Rightarrow> 'n \<Rightarrow> 'n"
  num_sub :: "'n \<Rightarrow> 'n \<Rightarrow> 'n"
  num_mul :: "'n \<Rightarrow> 'n \<Rightarrow> 'n"
  num_div :: "'n \<Rightarrow> 'n \<Rightarrow> 'n"
  num_lt :: "'n \<Rightarrow> 'n \<Rightarrow> bool"
  Math_round :: "'n \<Rightarrow> 'n"
  Math_sqrt :: "'n \<Rightarrow> 'n"
  Math_pow :: "'n \<Rightarrow> 'n \<Rightarrow> 'n"
  parseFloat :: "string \<Rightarrow> 'n"

section \<open>Strings and the provider\<close>

text \<open>
  \<^verbatim>\<open>toLowerCase\<close> on the ASCII letters; every catalog key is ASCII, and no other
  character lower-cases to a letter that occurs in a key.
\<close>

definition lower_char :: "char \<Rightarrow> char" where
  "lower_char c =
     (case map_of (zip ''ABCDEFGHIJKLMNOPQRSTUVWXYZ'' ''abcdefghijklmnopqrstuvwxyz'') c of
        None \<Rightarrow> c
      | Some l \<Rightarrow> l)"

definition toLowerCase :: "string \<Rightarrow> string" where
  "toLowerCase s = map lower_char s"

text \<open>A point of the provider's series, as the provider sends it.\<close>

record RawSeriesPoint =
  date :: string
  pvalue :: string

text \<open>
  The \<^verbatim>\<open>data\<close> field of the parsed body, by what the source can tell apart:
  \<^item> \<open>NoData\<close>: the field is missing or falsy (\<^verbatim>\<open>null\<close>, \<^verbatim>\<open>false\<close>, 0, the empty string),
    as in the provider's rate-limit notice;
  \<^item> \<open>Points\<close>: an array of points;
  \<^item> \<open>NotAnArray\<close>: a truthy value with no \<^verbatim>\<open>length\<close>, no element 0 and no
    \<^verbatim>\<open>slice\<close>, such as \<^verbatim>\<open>{}\<close>, \<^verbatim>\<open>true\<close> or 5.
  Strings and objects that carry a property 0 or \<^verbatim>\<open>length\<close> are not modelled, nor are
  arrays whose elements are not points.
\<close>

datatype series_field = NoData | NotAnArray | Points "RawSeriesPoint list"

record CommodityData =
  name :: string
  interval :: string
  unit :: string
  data :: series_field

text \<open>
  What \<^verbatim>\<open>res.json()\<close> can yield: \<^verbatim>\<open>null\<close>, a value that is neither \<^verbatim>\<open>null\<close> nor an
  object with fields (a number, a string, a boolean, an array), or an object.
\<close>

datatype json_value = JsonNull | NotAnObject | Object CommodityData

datatype body = Malformed string | WellFormed json_value

record Response =
  status :: nat
  body :: body

text \<open>
  What a rejected promise carries, each with its message: \<^verbatim>\<open>fetch\<close> rejects with a
  \<^verbatim>\<open>TypeError\<close> when the request fails, \<^verbatim>\<open>res.json()\<close> throws a \<^verbatim>\<open>SyntaxError\<close> when the
  body is not JSON, and reading a property of \<^verbatim>\<open>null\<close> or \<^verbatim>\<open>undefined\<close> throws a
  \<^verbatim>\<open>TypeError\<close>.
\<close>

datatype error = TypeError string | SyntaxError string

fun message :: "error \<Rightarrow> string" where
  "message (TypeError m) = m"
| "message (SyntaxError m) = m"

text \<open>
  The process environment: the API key, the network as a function of the URL, and
  two texts that the JavaScript engine decides: the message of the \<^verbatim>\<open>TypeError\<close> thrown
  while evaluating an expression, and how a property inherited from
  \<^verbatim>\<open>Object.prototype\<close> prints inside a template string.
\<close>

record env =
  API_KEY :: string
  fetch :: "string \<Rightarrow> error + Response"
  type_error :: "string \<Rightarrow> string"
  inherited_text :: "string \<Rightarrow> string"

definition json :: "Response \<Rightarrow> error + json_value" where
  "json res = (case body res of Malformed m \<Rightarrow> Inl (SyntaxError m) | WellFormed v \<Rightarrow> Inr v)"

definition BASE_URL :: string where
  "BASE_URL = ''https://www.alphavantage.co/query''"

text \<open>The template string that every fetcher builds its URL with.\<close>

definition query_url :: "env \<Rightarrow> string \<Rightarrow> string \<Rightarrow> string" where
  "query_url env func ival =
     BASE_URL @ ''?function='' @ func @ ''&interval='' @ ival @ ''&apikey='' @ API_KEY env"

datatype Interval = daily | weekly | monthly

fun interval_string :: "Interval \<Rightarrow> string" where
  "interval_string daily = ''daily''"
| "interval_string weekly = ''weekly''"
| "interval_string monthly = ''monthly''"

section \<open>The symbol catalog\<close>

text \<open>The two object literals, in the order of their keys.\<close>

definition COMMODITIES :: "(string \<times> string) list" where
  "COMMODITIES =
     [(''wti'', ''WTI''),
      (''brent'', ''BRENT''),
      (''natural_gas'', ''NATURAL_GAS''),
      (''copper'', ''COPPER''),
      (''aluminum'', ''ALUMINUM''),
      (''wheat'', ''WHEAT''),
      (''corn'', ''CORN''),
      (''coffee'', ''COFFEE''),
      (''cotton'', ''COTTON''),
      (''sugar'', ''SUGAR''),
      (''all'', ''ALL_COMMODITIES'')]"

record Info =
  category :: string
  description :: string

definition COMMODITY_INFO :: "(string \<times> Info) list" where
  "COMMODITY_INFO =
     [(''wti'', \<lparr>category = ''Energy'', description = ''West Texas Intermediate Crude Oil''\<rparr>),
      (''brent'', \<lparr>category = ''Energy'', description = ''Brent Crude Oil''\<rparr>),
      (''natural_gas'', \<lparr>category = ''Energy'', description = ''Henry Hub Natural Gas''\<rparr>),
      (''copper'', \<lparr>category = ''Metals'', description = ''Global Copper''\<rparr>),
      (''aluminum'', \<lparr>category = ''Metals'', description = ''Global Aluminum''\<rparr>),
      (''wheat'', \<lparr>category = ''Agriculture'', description = ''Global Wheat''\<rparr>),
      (''corn'', \<lparr>category = ''Agriculture'', description = ''Global Corn''\<rparr>),
      (''coffee'', \<lparr>category = ''Agriculture'', description = ''Global Coffee (Arabica)''\<rparr>),
      (''cotton'', \<lparr>category = ''Agriculture'', description = ''Global Cotton''\<rparr>),
      (''sugar'', \<lparr>category = ''Agriculture'', description = ''Global Sugar''\<rparr>)]"

definition Object_keys :: "(string \<times> 'v) list \<Rightarrow> string list" where
  "Object_keys obj = map fst obj"

text \<open>
  \<^verbatim>\<open>COMMODITIES[key]\<close> reads an object literal, so a key that is not its own is looked
  up in \<^verbatim>\<open>Object.prototype\<close>, whose properties are all truthy. \<open>property\<close> gives
  the text that the value prints as in the URL template, or \<open>None\<close> when the value is
  \<^verbatim>\<open>undefined\<close>.
\<close>

definition Object_prototype :: "string list" where
  "Object_prototype =
     [''constructor'', ''__proto__'', ''hasOwnProperty'', ''isPrototypeOf'',
      ''propertyIsEnumerable'', ''toLocaleString'', ''toString'', ''valueOf'',
      ''__defineGetter__'', ''__defineSetter__'', ''__lookupGetter__'', ''__lookupSetter__'']"

definition property :: "env \<Rightarrow> (string \<times> string) list \<Rightarrow> string \<Rightarrow> string option" where
  "property env obj key =
     (case map_of obj key of
        Some v \<Rightarrow> Some v
      | None \<Rightarrow> if key \<in> set Object_prototype then Some (inherited_text env key) else None)"

section \<open>The analysis\<close>

datatype VolatilityLevel = low | medium | high | unknown_level

datatype Signal = above | below | at_ma | unknown_signal

datatype Trend = bullish | bearish | neutral | unknown_trend

record 'n Current =
  c_price :: 'n
  c_unit :: string
  c_date :: string

record 'n Changes =
  day7 :: "'n option"
  day30 :: "'n option"
  day90 :: "'n option"

record 'n MovingAverages =
  ma7 :: "'n option"
  ma30 :: "'n option"

record 'n Volatility =
  v_daily :: "'n option"
  v_level :: VolatilityLevel

record Signals =
  vs7dma :: Signal
  vs30dma :: Signal
  trend :: Trend

record 'n CommodityAnalysis =
  commodity :: string
  a_name :: string
  a_category :: string
  current :: "'n Current"
  changes :: "'n Changes"
  movingAverages :: "'n MovingAverages"
  volatility :: "'n Volatility"
  signal :: Signals

definition calculateChange :: "'n arith \<Rightarrow> 'n \<Rightarrow> 'n \<Rightarrow> 'n" where
  "calculateChange A cur previous =
     num_mul A (num_div A (num_sub A cur previous) previous) (num_lit A 100)"

definition calculateMA :: "'n arith \<Rightarrow> 'n list \<Rightarrow> nat \<Rightarrow> 'n option" where
  "calculateMA A prices period =
     (if length prices < period then None
      else let slice = take period prices
           in Some (num_div A (foldl (\<lambda>a b. num_add A a b) (num_lit A 0) slice)
                      (num_lit A (int period))))"

text \<open>The \<^verbatim>\<open>for\<close> loop of \<^verbatim>\<open>calculateVolatility\<close>: \<open>i\<close> runs from 1 while
  \<open>i < Math.min(prices.length, 30)\<close>, pushing one return per round.\<close>

function returns_loop :: "'n arith \<Rightarrow> 'n list \<Rightarrow> nat \<Rightarrow> 'n list \<Rightarrow> 'n list" where
  "returns_loop A prices i returns =
     (if i < min (length prices) 30
      then returns_loop A prices (i + 1)
             (returns @ [num_div A (num_sub A (prices ! (i - 1)) (prices ! i)) (prices ! i)])
      else returns)"
  by pat_completeness auto
termination
  by (relation "measure (\<lambda>(A, prices, i, returns). min (length prices) 30 - i)") auto

declare returns_loop.simps [simp del]

definition calculateVolatility :: "'n arith \<Rightarrow> 'n list \<Rightarrow> 'n option" where
  "calculateVolatility A prices =
     (if length prices < 7 then None
      else let returns = returns_loop A prices 1 [];
               mean = num_div A (foldl (\<lambda>a b. num_add A a b) (num_lit A 0) returns)
                        (num_lit A (int (length returns)));
               variance =
                 num_div A
                   (foldl (\<lambda>sum r. num_add A sum (Math_pow A (num_sub A r mean) (num_lit A 2)))
                      (num_lit A 0) returns)
                   (num_lit A (int (length returns)))
           in Some (num_mul A (Math_sqrt A variance) (num_lit A 100)))"

definition getVolatilityLevel :: "'n arith \<Rightarrow> 'n option \<Rightarrow> VolatilityLevel" where
  "getVolatilityLevel A vol =
     (case vol of
        None \<Rightarrow> unknown_level
      | Some v \<Rightarrow>
          if num_lt A v (num_lit A 1) then low
          else if num_lt A v (num_lit A 3) then medium
          else high)"

definition getSignal :: "'n arith \<Rightarrow> 'n \<Rightarrow> 'n option \<Rightarrow> Signal" where
  "getSignal A cur ma =
     (case ma of
        None \<Rightarrow> unknown_signal
      | Some m \<Rightarrow>
          (let diff = num_mul A (num_div A (num_sub A cur m) m) (num_lit A 100)
           in if num_lt A (num_lit A 1) diff then above
              else if num_lt A diff (num_lit A (- 1)) then below
              else at_ma))"

definition getTrend :: "'n arith \<Rightarrow> 'n option \<Rightarrow> 'n option \<Rightarrow> Trend" where
  "getTrend A change7 change30 =
     (case (change7, change30) of
        (Some c7, Some c30) \<Rightarrow>
          if num_lt A (num_lit A 2) c7 \<and> num_lt A (num_lit A 0) c30 then bullish
          else if num_lt A c7 (num_lit A (- 2)) \<and> num_lt A c30 (num_lit A 0) then bearish
          else neutral
      | _ \<Rightarrow> unknown_trend)"

text \<open>\<^verbatim>\<open>x !== null ? Math.round(x * 100) / 100 : null\<close>, as the result literal has it
  for every number it reports.\<close>

definition round_field :: "'n arith \<Rightarrow> 'n option \<Rightarrow> 'n option" where
  "round_field A x =
     (case x of
        None \<Rightarrow> None
      | Some v \<Rightarrow> Some (num_div A (Math_round A (num_mul A v (num_lit A 100))) (num_lit A 100)))"

definition fetchAnalysis ::
  "'n arith \<Rightarrow> env \<Rightarrow> string \<Rightarrow> error + 'n CommodityAnalysis option" where
  "fetchAnalysis A env commodity_arg =
     (case property env COMMODITIES (toLowerCase commodity_arg) of
        None \<Rightarrow> Inr None
      | Some func \<Rightarrow>
          (let info = map_of COMMODITY_INFO (toLowerCase commodity_arg)
           in case fetch env (query_url env func ''daily'') of
                Inl e \<Rightarrow> Inl e
              | Inr res \<Rightarrow>
                  (case json res of
                     Inl e \<Rightarrow> Inl e
                   | Inr JsonNull \<Rightarrow> Inl (TypeError (type_error env ''data.data''))
                   | Inr NotAnObject \<Rightarrow> Inr None
                   | Inr (Object d) \<Rightarrow>
                       (case data d of
                          NoData \<Rightarrow> Inr None
                        | NotAnArray \<Rightarrow> Inl (TypeError (type_error env ''data.data.slice''))
                        | Points [] \<Rightarrow> Inr None
                        | Points (latest # rest) \<Rightarrow>
                            (let prices =
                                   map (\<lambda>d. parseFloat A (pvalue d)) (take 90 (latest # rest));
                                 cur = prices ! 0;
                                 change7 =
                                   (if length prices > 7
                                    then Some (calculateChange A cur (prices ! 7)) else None);
                                 change30 =
                                   (if length prices > 30
                                    then Some (calculateChange A cur (prices ! 30)) else None);
                                 change90 =
                                   (if length prices > 89
                                    then Some (calculateChange A cur (prices ! 89)) else None);
                                 m7 = calculateMA A prices 7;
                                 m30 = calculateMA A prices 30;
                                 vol = calculateVolatility A prices
                             in Inr (Some
                                  \<lparr>commodity = toLowerCase commodity_arg,
                                   a_name = name d,
                                   a_category =
                                     (case info of
                                        None \<Rightarrow> ''Unknown''
                                      | Some i \<Rightarrow>
                                          if category i = [] then ''Unknown'' else category i),
                                   current =
                                     \<lparr>c_price = cur, c_unit = unit d, c_date = date latest\<rparr>,
                                   changes =
                                     \<lparr>day7 = round_field A change7,
                                      day30 = round_field A change30,
                                      day90 = round_field A change90\<rparr>,
                                   movingAverages =
                                     \<lparr>ma7 = round_field A m7, ma30 = round_field A m30\<rparr>,
                                   volatility =
                                     \<lparr>v_daily = round_field A vol,
                                      v_level = getVolatilityLevel A vol\<rparr>,
                                   signal =
                                     \<lparr>vs7dma = getSignal A cur m7,
                                      vs30dma = getSignal A cur m30,
                                      trend = getTrend A change7 change30\<rparr>\<rparr>))))))"

section \<open>The other fetchers\<close>

record 'n CommodityPrice =
  p_name :: string
  price :: 'n
  p_unit :: string
  p_date :: string
  p_interval :: string

record 'n HistoricalPoint =
  h_date :: string
  h_price :: 'n

definition fetchCommodity ::
  "'n arith \<Rightarrow> env \<Rightarrow> string \<Rightarrow> Interval \<Rightarrow> error + 'n CommodityPrice option" where
  "fetchCommodity A env commodity_arg ival =
     (case property env COMMODITIES (toLowerCase commodity_arg) of
        None \<Rightarrow> Inr None
      | Some func \<Rightarrow>
          (case fetch env (query_url env func (interval_string ival)) of
             Inl e \<Rightarrow> Inl e
           | Inr res \<Rightarrow>
               (case json res of
                  Inl e \<Rightarrow> Inl e
                | Inr JsonNull \<Rightarrow> Inl (TypeError (type_error env ''data.data''))
                | Inr NotAnObject \<Rightarrow> Inr None
                | Inr (Object d) \<Rightarrow>
                    (case data d of
                       NoData \<Rightarrow> Inr None
                     | NotAnArray \<Rightarrow> Inl (TypeError (type_error env ''latest.value''))
                     | Points [] \<Rightarrow> Inr None
                     | Points (latest # rest) \<Rightarrow>
                         Inr (Some \<lparr>p_name = name d,
                                    price = parseFloat A (pvalue latest),
                                    p_unit = unit d,
                                    p_date = date latest,
                                    p_interval = interval d\<rparr>)))))"

text \<open>\<^verbatim>\<open>xs.slice(0, end)\<close>: a negative \<open>end\<close> counts from the end of the array.\<close>

definition slice0 :: "'a list \<Rightarrow> int \<Rightarrow> 'a list" where
  "slice0 xs e = (if e < 0 then take (nat (int (length xs) + e)) xs else take (nat e) xs)"

definition fetchHistorical ::
  "'n arith \<Rightarrow> env \<Rightarrow> string \<Rightarrow> Interval \<Rightarrow> int \<Rightarrow> error + 'n HistoricalPoint list option"
  where
  "fetchHistorical A env commodity_arg ival limit =
     (case property env COMMODITIES (toLowerCase commodity_arg) of
        None \<Rightarrow> Inr None
      | Some func \<Rightarrow>
          (case fetch env (query_url env func (interval_string ival)) of
             Inl e \<Rightarrow> Inl e
           | Inr res \<Rightarrow>
               (case json res of
                  Inl e \<Rightarrow> Inl e
                | Inr JsonNull \<Rightarrow> Inl (TypeError (type_error env ''data.data''))
                | Inr NotAnObject \<Rightarrow> Inr None
                | Inr (Object d) \<Rightarrow>
                    (case data d of
                       NoData \<Rightarrow> Inr None
                     | NotAnArray \<Rightarrow> Inl (TypeError (type_error env ''data.data.slice''))
                     | Points [] \<Rightarrow> Inr None
                     | Points (latest # rest) \<Rightarrow>
                         Inr (Some (map (\<lambda>d. \<lparr>h_date = date d,
                                                h_price = parseFloat A (pvalue d)\<rparr>)
                                      (slice0 (latest # rest) limit)))))))"

text \<open>An entry of the bulk result: \<^verbatim>\<open>CommodityPrice | { error: string }\<close>.\<close>

datatype 'n PriceOrError = Price "'n CommodityPrice" | ErrorMarker string

text \<open>\<^verbatim>\<open>try { ... } catch (e) { ... }\<close>: the handler runs on what the block throws.\<close>

definition try_catch :: "error + 'a \<Rightarrow> (error \<Rightarrow> error + 'a) \<Rightarrow> error + 'a" where
  "try_catch block handler = (case block of Inl e \<Rightarrow> handler e | Inr v \<Rightarrow> Inr v)"

text \<open>
  The \<^verbatim>\<open>for ... of\<close> loop of \<^verbatim>\<open>fetchAllCommodities\<close> over the keys still to fetch,
  with \<open>results\<close> as built so far. The pause of 200 ms after each round has no
  effect on the result and is not modelled.
\<close>

fun fetchAll_loop ::
  "'n arith \<Rightarrow> env \<Rightarrow> Interval \<Rightarrow> string list \<Rightarrow> (string \<rightharpoonup> 'n PriceOrError)
     \<Rightarrow> error + (string \<rightharpoonup> 'n PriceOrError)" where
  "fetchAll_loop A env ival [] results = Inr results"
| "fetchAll_loop A env ival (c # cs) results =
     (case try_catch
             (case fetchCommodity A env c ival of
                Inl e \<Rightarrow> Inl e
              | Inr (Some d) \<Rightarrow> Inr (results(c \<mapsto> Price d))
              | Inr None \<Rightarrow> Inr (results(c \<mapsto> ErrorMarker ''No data available'')))
             (\<lambda>e. Inr (results(c \<mapsto> ErrorMarker (message e)))) of
        Inl e \<Rightarrow> Inl e
      | Inr results' \<Rightarrow> fetchAll_loop A env ival cs results')"

definition fetchAllCommodities ::
  "'n arith \<Rightarrow> env \<Rightarrow> Interval \<Rightarrow> error + (string \<rightharpoonup> 'n PriceOrError)" where
  "fetchAllCommodities A env ival =
     (let commodities = filter (\<lambda>k. k \<noteq> ''all'') (Object_keys COMMODITIES)
      in fetchAll_loop A env ival commodities Map.empty)"

section \<open>The cache\<close>

text \<open>
  \<^verbatim>\<open>CacheEntry<T>\<close>; times are milliseconds, as \<^verbatim>\<open>Date.now()\<close> counts them.
\<close>

record 'a CacheEntry =
  entry_data :: 'a
  timestamp :: int
  ttlMs :: int

type_synonym 'a store = "string \<rightharpoonup> 'a CacheEntry"

text \<open>
  An awaited call runs in the world outside the cache (the clock, the network): it
  ends in a value or in a rejection, and leaves the world changed. \<open>Date_now\<close>
  reads the clock of a world. One call of \<^verbatim>\<open>Cache.get\<close> is modelled from its start
  to its return, with no other call interleaved.
\<close>

type_synonym ('a, 'w) promise = "'w \<Rightarrow> (error + 'a) \<times> 'w"

definition Cache_get ::
  "('w \<Rightarrow> int) \<Rightarrow> string \<Rightarrow> ('a, 'w) promise \<Rightarrow> int \<Rightarrow> 'a store \<times> 'w
     \<Rightarrow> (error + 'a) \<times> 'a store \<times> 'w" where
  "Cache_get Date_now key fetcher ttl = (\<lambda>(store, w).
     (let miss =
            (case fetcher w of
               (Inl e, w') \<Rightarrow> (Inl e, store, w')
             | (Inr d, w') \<Rightarrow>
                 (Inr d,
                  store(key \<mapsto> \<lparr>entry_data = d, timestamp = Date_now w', ttlMs = ttl\<rparr>),
                  w'))
      in case store key of
           None \<Rightarrow> miss
         | Some existing \<Rightarrow>
             if Date_now w - timestamp existing < ttlMs existing
             then (Inr (entry_data existing), store, w)
             else miss))"

definition Cache_getAge ::
  "('w \<Rightarrow> int) \<Rightarrow> string \<Rightarrow> 'a store \<times> 'w \<Rightarrow> int option \<times> 'a store \<times> 'w" where
  "Cache_getAge Date_now key = (\<lambda>(store, w).
     (case store key of
        None \<Rightarrow> (None, store, w)
      | Some entry \<Rightarrow>
          (Some \<lfloor>real_of_int (Date_now w - timestamp entry) / 1000\<rfloor>, store, w)))"

section \<open>The specification's notions\<close>

text \<open>
  The formulas of the specification, read in the program's numbers: each operation
  is the number type's own, a sum runs from 0 through the list in order.
\<close>

text \<open>Rounding to 2 decimals.\<close>

definition rounded2 :: "'n arith \<Rightarrow> 'n \<Rightarrow> 'n" where
  "rounded2 A x = num_div A (Math_round A (num_mul A x (num_lit A 100))) (num_lit A 100)"

text \<open>\<open>(p[0] - p[k]) / p[k] * 100\<close> for a series \<open>p\<close>, newest first, when it has more than
  \<open>k\<close> points.\<close>

definition change_unrounded :: "'n arith \<Rightarrow> 'n list \<Rightarrow> nat \<Rightarrow> 'n option" where
  "change_unrounded A p k =
     (if length p > k
      then Some (num_mul A (num_div A (num_sub A (p ! 0) (p ! k)) (p ! k)) (num_lit A 100))
      else None)"

text \<open>\<open>change(k)\<close>: the same, rounded to 2 decimals.\<close>

definition change_spec :: "'n arith \<Rightarrow> 'n list \<Rightarrow> nat \<Rightarrow> 'n option" where
  "change_spec A p k = map_option (rounded2 A) (change_unrounded A p k)"

definition sum_of :: "'n arith \<Rightarrow> 'n list \<Rightarrow> 'n" where
  "sum_of A xs = foldl (num_add A) (num_lit A 0) xs"

definition arithmetic_mean :: "'n arith \<Rightarrow> 'n list \<Rightarrow> 'n" where
  "arithmetic_mean A xs = num_div A (sum_of A xs) (num_lit A (int (length xs)))"





text \<open>The entry of the bulk result that a symbol's own fetch decides.\<close>

definition entry_of :: "'n arith \<Rightarrow> env \<Rightarrow> Interval \<Rightarrow> string \<Rightarrow> 'n PriceOrError" where
  "entry_of A env ival c =
     (case fetchCommodity A env c ival of
        Inl e \<Rightarrow> ErrorMarker (message e)
      | Inr None \<Rightarrow> ErrorMarker ''No data available''
      | Inr (Some d) \<Rightarrow> Price d)"

text \<open>The mapping that the bulk operation returns: one entry for every key of the
  catalog but \<open>all\<close>.\<close>

definition batch_result :: "'n arith \<Rightarrow> env \<Rightarrow> Interval \<Rightarrow> string \<rightharpoonup> 'n PriceOrError" where
  "batch_result A env ival =
     (\<lambda>k. if k \<in> set (filter (\<lambda>k. k \<noteq> ''all'') (Object_keys COMMODITIES))
          then Some (entry_of A env ival k) else None)"

text \<open>An entry is fresh while less than its own ttl has passed since it was stored.\<close>

definition fresh :: "('w \<Rightarrow> int) \<Rightarrow> 'a store \<Rightarrow> string \<Rightarrow> 'w \<Rightarrow> bool" where
  "fresh Date_now store key w =
     (case store key of None \<Rightarrow> False | Some e \<Rightarrow> Date_now w - timestamp e < ttlMs e)"

text \<open>
  A producer that counts its invocations: the world is paired with the number of
  times the producer has run.
\<close>

definition counted :: "('a, 'w) promise \<Rightarrow> ('a, 'w \<times> nat) promise" where
  "counted f = (\<lambda>(w, n). case f w of (r, w') \<Rightarrow> (r, (w', Suc n)))"

section \<open>Inputs for the examples\<close>

text \<open>
  A number type for the examples: the reals with exact operations, reading strings
  of decimal digits. On the inputs used below every intermediate value is a whole
  number or a binary fraction of a few bits, so the doubles compute the same values.
\<close>

definition digit_value :: "char \<Rightarrow> int" where
  "digit_value c =
     (case map_of (zip ''0123456789'' [0, 1, 2, 3, 4, 5, 6, 7, 8, 9]) c of
        None \<Rightarrow> 0
      | Some d \<Rightarrow> d)"

definition read_digits :: "string \<Rightarrow> real" where
  "read_digits s = of_int (foldl (\<lambda>a c. 10 * a + digit_value c) 0 s)"

definition exact :: "real arith" where
  "exact =
     \<lparr>num_lit = of_int,
      num_add = (\<lambda>a b. a + b),
      num_sub = (\<lambda>a b. a - b),
      num_mul = (\<lambda>a b. a * b),
      num_div = (\<lambda>a b. a / b),
      num_lt = (\<lambda>a b. a < b),
      Math_round = (\<lambda>x. of_int \<lfloor>x + 1 / 2\<rfloor>),
      Math_sqrt = (\<lambda>x. sqrt (max x 0)),
      Math_pow = (\<lambda>x y. x ^ nat \<lfloor>y\<rfloor>),
      parseFloat = read_digits\<rparr>"

definition analysis_result ::
  "error + 'n CommodityAnalysis option \<Rightarrow> 'n CommodityAnalysis option" where
  "analysis_result r = (case r of Inr (Some a) \<Rightarrow> Some a | _ \<Rightarrow> None)"

definition series :: "string list \<Rightarrow> RawSeriesPoint list" where
  "series ps = map (\<lambda>p. \<lparr>date = ''2024-01-02'', pvalue = p\<rparr>) ps"

definition data_with :: "string list \<Rightarrow> CommodityData" where
  "data_with ps =
     \<lparr>name = ''Crude Oil Prices WTI'', interval = ''daily'',
      unit = ''dollars per barrel'', data = Points (series ps)\<rparr>"

definition response_with :: "nat \<Rightarrow> string list \<Rightarrow> Response" where
  "response_with st ps = \<lparr>status = st, body = WellFormed (Object (data_with ps))\<rparr>"

text \<open>A provider that answers every query with the given response.\<close>

definition answering :: "Response \<Rightarrow> env" where
  "answering res =
     \<lparr>API_KEY = ''demo'', fetch = (\<lambda>url. Inr res),
      type_error = (\<lambda>expr. ''cannot evaluate '' @ expr),
      inherited_text = (\<lambda>key. ''[object Object]'')\<rparr>"

text \<open>A provider that answers every query with the same series.\<close>

definition provider_with :: "string list \<Rightarrow> env" where
  "provider_with ps = answering (response_with 200 ps)"



text \<open>A provider whose network fails for Brent and answers every other query.\<close>

definition brent_down :: env where
  "brent_down =
     \<lparr>API_KEY = ''demo'',
      fetch = (\<lambda>url. if url = ''https://www.alphavantage.co/query?function=BRENT&interval=daily&apikey=demo''
                      then Inl (TypeError ''fetch failed'')
                      else Inr (response_with 200 [''75'', ''74''])),
      type_error = (\<lambda>expr. ''cannot evaluate '' @ expr),
      inherited_text = (\<lambda>key. ''[object Object]'')\<rparr>"

text \<open>A world for the cache examples: the clock, and a producer that takes 5 ms.\<close>

definition slow_producer :: "(string, int) promise" where
  "slow_producer = (\<lambda>t. (Inr ''fresh value'', t + 5))"

definition failing_producer :: "(string, int) promise" where
  "failing_producer = (\<lambda>t. (Inl (TypeError ''fetch failed''), t + 5))"

section \<open>Auxiliary facts\<close>


lemma round_field_Some: "round_field A (Some v) = Some (rounded2 A v)"
  by (simp add: round_field_def rounded2_def)

lemma round_field_None: "round_field A None = None"
  by (simp add: round_field_def)

lemma property_own: "map_of obj key = Some v \<Longrightarrow> property env obj key = Some v"
  by (simp add: property_def)

lemma known_symbol:
  "map_of COMMODITIES ''wti'' = Some ''WTI''"
  "map_of COMMODITIES ''all'' = Some ''ALL_COMMODITIES''"
  "map_of COMMODITY_INFO ''all'' = None"
  by (simp_all add: COMMODITIES_def COMMODITY_INFO_def)

lemma toLowerCase_examples:
  "toLowerCase ''WTI'' = ''wti''" "toLowerCase ''wti'' = ''wti''" "toLowerCase ''all'' = ''all''"
  by (simp_all add: toLowerCase_def lower_char_def)

lemma answering_simps:
  "fetch (answering res) url = Inr res"
  "API_KEY (answering res) = ''demo''"
  by (simp_all add: answering_def)

lemma response_with_simps:
  "body (response_with st ps) = WellFormed (Object (data_with ps))"
  "data (data_with ps) = Points (series ps)"
  "json (response_with st ps) = Inr (Object (data_with ps))"
  by (simp_all add: response_with_def data_with_def json_def)

lemma series_simps:
  "series [] = []" "series (p # ps) = \<lparr>date = ''2024-01-02'', pvalue = p\<rparr> # series ps"
  "map (\<lambda>d. parseFloat A (pvalue d)) (series ps) = map (parseFloat A) ps"
  "length (series ps) = length ps"
  by (simp_all add: series_def comp_def)

lemma read_digits_examples:
  "read_digits ''96'' = 96" "read_digits ''64'' = 64" "read_digits ''70'' = 70"
  "read_digits ''200'' = 200" "read_digits ''100'' = 100"
  "read_digits ''66848'' = 66848" "read_digits ''65536'' = 65536"
  "read_digits ''75'' = 75" "read_digits ''74'' = 74" "read_digits ''73'' = 73"
  by (simp_all add: read_digits_def digit_value_def)

lemma exact_simps:
  "num_lit exact i = of_int i" "num_add exact a b = a + b" "num_sub exact a b = a - b"
  "num_mul exact a b = a * b" "num_div exact a b = a / b" "num_lt exact a b = (a < b)"
  "Math_round exact x = of_int \<lfloor>x + 1 / 2\<rfloor>" "Math_sqrt exact x = sqrt (max x 0)"
  "Math_pow exact x y = x ^ nat \<lfloor>y\<rfloor>" "parseFloat exact = read_digits"
  by (simp_all add: exact_def)


lemma trend_example_changes:
  "change_unrounded exact (map (parseFloat exact) (''66848'' # replicate 30 ''65536'')) 7
     = Some (1025 / 512)"
  "change_unrounded exact (map (parseFloat exact) (''66848'' # replicate 30 ''65536'')) 30
     = Some (1025 / 512)"
  "rounded2 exact (1025 / 512) = 2"
  by (simp_all add: change_unrounded_def rounded2_def exact_simps read_digits_examples nth_Cons')

lemma brent_down_fetches:
  "fetchCommodity exact brent_down ''wti'' daily =
     Inr (Some \<lparr>p_name = ''Crude Oil Prices WTI'', price = 75, p_unit = ''dollars per barrel'',
                p_date = ''2024-01-02'', p_interval = ''daily''\<rparr>)"
  "fetchCommodity exact brent_down ''brent'' daily = Inl (TypeError ''fetch failed'')"
  "fetchCommodity exact brent_down ''sugar'' daily =
     Inr (Some \<lparr>p_name = ''Crude Oil Prices WTI'', price = 75, p_unit = ''dollars per barrel'',
                p_date = ''2024-01-02'', p_interval = ''daily''\<rparr>)"
  by (simp_all add: fetchCommodity_def property_def toLowerCase_def lower_char_def
      COMMODITIES_def query_url_def BASE_URL_def brent_down_def json_def response_with_def
      data_with_def series_def exact_simps read_digits_examples)

subsection \<open>The loop of calculateVolatility\<close>






subsection \<open>The sign of the volatility\<close>



subsection \<open>The loop of fetchAllCommodities\<close>

lemma fetchAll_loop_result:
  "fetchAll_loop A env ival cs results =
     Inr (\<lambda>k. if k \<in> set cs then Some (entry_of A env ival k) else results k)"
proof (induction cs arbitrary: results)
  case Nil
  show ?case by simp
next
  case (Cons c cs)
  have step: "try_catch
             (case fetchCommodity A env c ival of
                Inl e \<Rightarrow> Inl e
              | Inr (Some d) \<Rightarrow> Inr (results(c \<mapsto> Price d))
              | Inr None \<Rightarrow> Inr (results(c \<mapsto> ErrorMarker ''No data available'')))
             (\<lambda>e. Inr (results(c \<mapsto> ErrorMarker (message e))))
           = Inr (results(c \<mapsto> entry_of A env ival c))"
    by (simp add: try_catch_def entry_of_def split: sum.splits option.splits)
  show ?case
    by (simp only: fetchAll_loop.simps step sum.case Cons.IH) (auto simp add: fun_eq_iff)
qed

lemma fetchAllCommodities_batch_result:
  "fetchAllCommodities A env ival = Inr (batch_result A env ival)"
  by (simp only: fetchAllCommodities_def Let_def fetchAll_loop_result batch_result_def)

lemma dom_batch_result:
  "dom (batch_result A env ival) = set (Object_keys COMMODITIES) - {''all''}"
  by (auto simp add: batch_result_def dom_def)

lemma batch_result_entry:
  "c \<in> dom (batch_result A env ival)
     \<Longrightarrow> batch_result A env ival c = Some (entry_of A env ival c)"
  by (simp add: batch_result_def dom_def split: if_splits)

subsection \<open>The cache, hit and miss\<close>

lemma Cache_get_fresh:
  "fresh Date_now store key w \<Longrightarrow>
   Cache_get Date_now key fetcher ttl (store, w) = (Inr (entry_data (the (store key))), store, w)"
  by (simp add: Cache_get_def fresh_def split: option.splits)

lemma Cache_get_miss:
  "\<not> fresh Date_now store key w \<Longrightarrow>
   Cache_get Date_now key fetcher ttl (store, w) =
     (case fetcher w of
        (Inl e, w') \<Rightarrow> (Inl e, store, w')
      | (Inr d, w') \<Rightarrow>
          (Inr d, store(key \<mapsto> \<lparr>entry_data = d, timestamp = Date_now w', ttlMs = ttl\<rparr>), w'))"
  by (simp add: Cache_get_def fresh_def split: option.splits)

lemma fresh_counted: "fresh (Date_now \<circ> fst) store key (w, n) = fresh Date_now store key w"
  by (simp add: fresh_def split: option.splits)

lemma whole_seconds: "\<lfloor>real_of_int a / 1000\<rfloor> = a div 1000"
  using floor_divide_of_int_eq[of a 1000] by simp

section \<open>The claims\<close>

text \<open>
  C1. For a known symbol whose daily series \<open>ds\<close> is not empty, \<^verbatim>\<open>fetchAnalysis\<close>
  returns an analysis whose \<open>day7\<close>, \<open>day30\<close> and \<open>day90\<close> are \<open>change(k)\<close> of the
  series for \<open>k\<close> = 7, 30 and 89: \<open>(p[0] - p[k]) / p[k] * 100\<close> rounded to 2 decimals
  when the series has more than \<open>k\<close> points, and null when it has \<open>k\<close> points or fewer.
  The formula is computed in the program's numbers, each operation in the order
  written. The series is the one the provider sent, of any length: cutting it to its
  newest 90 points changes none of the three.
\<close>

theorem fetchAnalysis_changes:
  assumes "map_of COMMODITIES (toLowerCase c) = Some func"
      and "fetch env (query_url env func ''daily'') = Inr res"
      and "body res = WellFormed (Object d)" and "data d = Points ds" and "ds \<noteq> []"
  shows "\<exists>a. fetchAnalysis A env c = Inr (Some a)
          \<and> day7 (changes a) = change_spec A (map (\<lambda>d. parseFloat A (pvalue d)) ds) 7
          \<and> day30 (changes a) = change_spec A (map (\<lambda>d. parseFloat A (pvalue d)) ds) 30
          \<and> day90 (changes a) = change_spec A (map (\<lambda>d. parseFloat A (pvalue d)) ds) 89"
proof -
  obtain latest rest where ds: "ds = latest # rest"
    using assms(5) by (cases ds) auto
  show ?thesis
    using assms(1-4) unfolding ds
    by (simp add: fetchAnalysis_def property_own json_def Let_def change_spec_def
        change_unrounded_def calculateChange_def round_field_Some round_field_None)
qed

text \<open>At 8 points the 7-day change is there, (96 - 64) / 64 * 100 = 50; at 7 points it
  is null.\<close>

theorem fetchAnalysis_changes_witness:
  "(\<exists>a. fetchAnalysis exact (provider_with [''96'', ''70'', ''70'', ''70'', ''70'', ''70'', ''70'', ''64''])
          ''WTI'' = Inr (Some a)
        \<and> day7 (changes a) = Some 50 \<and> day30 (changes a) = None \<and> day90 (changes a) = None)
   \<and> (\<exists>a. fetchAnalysis exact (provider_with [''96'', ''70'', ''70'', ''70'', ''70'', ''70'', ''70''])
          ''WTI'' = Inr (Some a)
        \<and> day7 (changes a) = None \<and> day30 (changes a) = None \<and> day90 (changes a) = None)"
proof -
  let ?p8 = "[''96'', ''70'', ''70'', ''70'', ''70'', ''70'', ''70'', ''64'']"
  let ?p7 = "[''96'', ''70'', ''70'', ''70'', ''70'', ''70'', ''70'']"
  have "\<exists>a. fetchAnalysis exact (provider_with ?p8) ''WTI'' = Inr (Some a)
        \<and> day7 (changes a) = Some 50 \<and> day30 (changes a) = None \<and> day90 (changes a) = None"
    using fetchAnalysis_changes[of "''WTI''" "''WTI''" "provider_with ?p8"
        "response_with 200 ?p8" "data_with ?p8" "series ?p8" exact]
    by (simp add: toLowerCase_examples known_symbol provider_with_def answering_simps
        response_with_simps series_simps change_spec_def change_unrounded_def rounded2_def
        exact_simps read_digits_examples)
  moreover have "\<exists>a. fetchAnalysis exact (provider_with ?p7) ''WTI'' = Inr (Some a)
        \<and> day7 (changes a) = None \<and> day30 (changes a) = None \<and> day90 (changes a) = None"
    using fetchAnalysis_changes[of "''WTI''" "''WTI''" "provider_with ?p7"
        "response_with 200 ?p7" "data_with ?p7" "series ?p7" exact]
    by (simp add: toLowerCase_examples known_symbol provider_with_def answering_simps
        response_with_simps series_simps change_spec_def change_unrounded_def)
  ultimately show ?thesis by (rule conjI)
qed

text \<open>
  C2. \<^verbatim>\<open>Cache.get\<close>, run with a producer that counts its invocations. When the key has
  an entry and \<open>now - entry.timestamp < entry.ttlMs\<close>, the call returns the stored value,
  changes neither the store nor the world, and the count stays: the producer was not
  invoked. In every other case the count goes up by one; when the producer returns a
  value, it is stored under the key with the time read after the producer has
  finished and with the ttl of this call, replacing what was there, and is returned.
  So after a miss that stored \<open>d\<close> at time \<open>t\<close>, a second call at any time before
  \<open>t + ttl\<close> returns \<open>d\<close> with the producer invoked once in all, and a second call at
  \<open>t + ttl\<close> or later invokes it a second time.
\<close>

theorem Cache_get_invokes_producer_iff_stale:
  "Cache_get (Date_now \<circ> fst) key (counted f) ttl (store, (w, n)) =
     (if fresh Date_now store key w
      then (Inr (entry_data (the (store key))), store, (w, n))
      else case f w of
             (Inl e, w') \<Rightarrow> (Inl e, store, (w', Suc n))
           | (Inr d, w') \<Rightarrow>
               (Inr d,
                store(key \<mapsto> \<lparr>entry_data = d, timestamp = Date_now w', ttlMs = ttl\<rparr>),
                (w', Suc n)))
   \<and> (\<forall>d w1 w2 store1.
         \<not> fresh Date_now store key w \<and> f w = (Inr d, w1)
         \<and> store1 = store(key \<mapsto> \<lparr>entry_data = d, timestamp = Date_now w1, ttlMs = ttl\<rparr>)
       \<longrightarrow> Cache_get (Date_now \<circ> fst) key (counted f) ttl (store, (w, 0))
             = (Inr d, store1, (w1, 1))
         \<and> (Date_now w2 - Date_now w1 < ttl
             \<longrightarrow> Cache_get (Date_now \<circ> fst) key (counted f) ttl (store1, (w2, 1))
                   = (Inr d, store1, (w2, 1)))
         \<and> (\<not> Date_now w2 - Date_now w1 < ttl
             \<longrightarrow> snd (snd (snd (Cache_get (Date_now \<circ> fst) key (counted f) ttl
                                   (store1, (w2, 1))))) = 2))"
proof (intro conjI allI impI)
  show "Cache_get (Date_now \<circ> fst) key (counted f) ttl (store, (w, n)) =
     (if fresh Date_now store key w
      then (Inr (entry_data (the (store key))), store, (w, n))
      else case f w of
             (Inl e, w') \<Rightarrow> (Inl e, store, (w', Suc n))
           | (Inr d, w') \<Rightarrow>
               (Inr d,
                store(key \<mapsto> \<lparr>entry_data = d, timestamp = Date_now w', ttlMs = ttl\<rparr>),
                (w', Suc n)))"
    by (cases "f w"; cases "fst (f w)")
       (simp_all add: Cache_get_fresh Cache_get_miss fresh_counted counted_def)
next
  fix d w1 w2 store1
  assume a: "\<not> fresh Date_now store key w \<and> f w = (Inr d, w1)
         \<and> store1 = store(key \<mapsto> \<lparr>entry_data = d, timestamp = Date_now w1, ttlMs = ttl\<rparr>)"
  then show "Cache_get (Date_now \<circ> fst) key (counted f) ttl (store, (w, 0))
      = (Inr d, store1, (w1, 1))"
    by (simp add: Cache_get_miss fresh_counted counted_def)
  {
    assume "Date_now w2 - Date_now w1 < ttl"
    with a have "fresh (Date_now \<circ> fst) store1 key (w2, 1::nat)"
      by (simp add: fresh_def)
    then show "Cache_get (Date_now \<circ> fst) key (counted f) ttl (store1, (w2, 1))
        = (Inr d, store1, (w2, 1))"
      using a by (simp add: Cache_get_fresh)
  }
  {
    assume "\<not> Date_now w2 - Date_now w1 < ttl"
    with a have "\<not> fresh (Date_now \<circ> fst) store1 key (w2, 1::nat)"
      by (simp add: fresh_def)
    then show "snd (snd (snd (Cache_get (Date_now \<circ> fst) key (counted f) ttl
        (store1, (w2, 1))))) = 2"
      by (cases "f w2"; cases "fst (f w2)") (simp_all add: Cache_get_miss counted_def)
  }
qed

text \<open>A producer that takes 5 ms, first called at time 0 with a ttl of 1000 ms: the
  entry is stamped 5; a call at 1004 is served from the cache, a call at 1005 is not.\<close>

theorem Cache_get_invokes_producer_iff_stale_witness:
  "Cache_get ((\<lambda>t. t) \<circ> fst) ''all:daily'' (counted slow_producer) 1000 (Map.empty, (0, 0))
     = (Inr ''fresh value'',
        [''all:daily'' \<mapsto> \<lparr>entry_data = ''fresh value'', timestamp = 5, ttlMs = 1000\<rparr>], (5, 1))
   \<and> Cache_get ((\<lambda>t. t) \<circ> fst) ''all:daily'' (counted slow_producer) 1000
        ([''all:daily'' \<mapsto> \<lparr>entry_data = ''fresh value'', timestamp = 5, ttlMs = 1000\<rparr>],
         (1004, 1))
     = (Inr ''fresh value'',
        [''all:daily'' \<mapsto> \<lparr>entry_data = ''fresh value'', timestamp = 5, ttlMs = 1000\<rparr>],
        (1004, 1))
   \<and> snd (snd (snd (Cache_get ((\<lambda>t. t) \<circ> fst) ''all:daily'' (counted slow_producer) 1000
        ([''all:daily'' \<mapsto> \<lparr>entry_data = ''fresh value'', timestamp = 5, ttlMs = 1000\<rparr>],
         (1005, 1)))))
     = 2"
proof -
  let ?s1 = "[''all:daily'' \<mapsto>
      \<lparr>entry_data = ''fresh value'', timestamp = 5, ttlMs = (1000::int)\<rparr>]"
  have pre: "\<not> fresh (\<lambda>t. t) (Map.empty :: string store) ''all:daily'' (0::int)
      \<and> slow_producer 0 = (Inr ''fresh value'', 5)
      \<and> ?s1 = Map.empty(''all:daily'' \<mapsto>
            \<lparr>entry_data = ''fresh value'', timestamp = (\<lambda>t. t) 5, ttlMs = 1000\<rparr>)"
    by (simp add: fresh_def slow_producer_def)
  note T = Cache_get_invokes_producer_iff_stale[of "\<lambda>t. t" "''all:daily''" slow_producer 1000
      Map.empty 0 0, THEN conjunct2, rule_format, OF pre]
  from T[of 1004] T[of 1005] show ?thesis by simp
qed



text \<open>
  C4. \<^verbatim>\<open>calculateMA\<close> is null when the series has fewer points than the period, and
  otherwise the arithmetic mean of the newest \<open>period\<close> points, summed in order from
  0 and divided by the period; two series that agree on these points have the same
  average, whatever comes after them.
\<close>

theorem calculateMA_window:
  "calculateMA A prices period =
     (if length prices < period then None
      else Some (arithmetic_mean A (take period prices)))
   \<and> (\<forall>other. period \<le> length prices \<and> period \<le> length other
          \<and> take period other = take period prices
        \<longrightarrow> calculateMA A other period = calculateMA A prices period)"
  by (auto simp add: calculateMA_def arithmetic_mean_def sum_of_def min_def)

theorem calculateMA_window_witness:
  "calculateMA exact [3, 4, 8, 100] 3 = Some 5
   \<and> calculateMA exact [3, 4, 8, 1, 2] 3 = calculateMA exact [3, 4, 8, 100] 3
   \<and> calculateMA exact [3, 4] 3 = None"
proof -
  have "calculateMA exact [3, 4, 8, 100] 3 = Some 5"
    using calculateMA_window[of exact "[3, 4, 8, 100]" 3]
    by (simp add: arithmetic_mean_def sum_of_def exact_simps)
  moreover have "calculateMA exact [3, 4, 8, 1, 2] 3 = calculateMA exact [3, 4, 8, 100] 3"
    using calculateMA_window[of exact "[3, 4, 8, 100]" 3, THEN conjunct2, rule_format,
        of "[3, 4, 8, 1, 2]"]
    by simp
  moreover have "calculateMA exact [3, 4] 3 = None"
    using calculateMA_window[of exact "[3, 4]" 3] by simp
  ultimately show ?thesis by simp
qed

text \<open>
  C5, as the code has it. The trend is computed from the changes before they are
  rounded: it is unknown when the 7-day or the 30-day change is null, bullish exactly
  when \<open>2 < change7\<close> and \<open>0 < change30\<close> for the unrounded changes, bearish exactly when
  \<open>change7 < -2\<close> and \<open>change30 < 0\<close> (and the bullish test, which comes first, fails, as
  it then does in the doubles), and neutral otherwise. The fields \<open>day7\<close> and \<open>day30\<close>
  of the same result are these changes rounded to 2 decimals.
\<close>

theorem fetchAnalysis_trend:
  assumes "map_of COMMODITIES (toLowerCase c) = Some func"
      and "fetch env (query_url env func ''daily'') = Inr res"
      and "body res = WellFormed (Object d)" and "data d = Points ds" and "ds \<noteq> []"
  shows "\<exists>a. fetchAnalysis A env c = Inr (Some a)
          \<and> day7 (changes a)
              = map_option (rounded2 A)
                  (change_unrounded A (map (\<lambda>d. parseFloat A (pvalue d)) ds) 7)
          \<and> day30 (changes a)
              = map_option (rounded2 A)
                  (change_unrounded A (map (\<lambda>d. parseFloat A (pvalue d)) ds) 30)
          \<and> (change_unrounded A (map (\<lambda>d. parseFloat A (pvalue d)) ds) 7 = None
               \<or> change_unrounded A (map (\<lambda>d. parseFloat A (pvalue d)) ds) 30 = None
               \<longrightarrow> trend (signal a) = unknown_trend)
          \<and> (\<forall>c7 c30.
                 change_unrounded A (map (\<lambda>d. parseFloat A (pvalue d)) ds) 7 = Some c7
                 \<and> change_unrounded A (map (\<lambda>d. parseFloat A (pvalue d)) ds) 30 = Some c30
               \<longrightarrow> (trend (signal a) = bullish
                      \<longleftrightarrow> num_lt A (num_lit A 2) c7 \<and> num_lt A (num_lit A 0) c30)
                 \<and> (trend (signal a) = bearish
                      \<longleftrightarrow> num_lt A c7 (num_lit A (- 2)) \<and> num_lt A c30 (num_lit A 0)
                          \<and> \<not> (num_lt A (num_lit A 2) c7 \<and> num_lt A (num_lit A 0) c30))
                 \<and> (trend (signal a) = neutral
                      \<longleftrightarrow> \<not> (num_lt A (num_lit A 2) c7 \<and> num_lt A (num_lit A 0) c30)
                          \<and> \<not> (num_lt A c7 (num_lit A (- 2)) \<and> num_lt A c30 (num_lit A 0))))"
proof -
  obtain latest rest where ds: "ds = latest # rest"
    using assms(5) by (cases ds) auto
  show ?thesis
    using assms(1-4) unfolding ds
    by (simp add: fetchAnalysis_def property_own json_def Let_def change_unrounded_def
        calculateChange_def round_field_Some round_field_None getTrend_def)
qed

theorem fetchAnalysis_trend_witness:
  "\<exists>a. fetchAnalysis exact (provider_with (''66848'' # replicate 30 ''65536'')) ''wti''
          = Inr (Some a)
        \<and> trend (signal a) = bullish
        \<and> day7 (changes a) = Some 2 \<and> day30 (changes a) = Some 2"
proof -
  let ?p = "''66848'' # replicate 30 ''65536''"
  let ?ps = "map (\<lambda>d. parseFloat exact (pvalue d)) (series ?p)"
  have ps: "?ps = map (parseFloat exact) ?p" by (rule series_simps(3))
  have h1: "map_of COMMODITIES (toLowerCase ''wti'') = Some ''WTI''"
    by (simp add: toLowerCase_examples known_symbol)
  have h2: "fetch (provider_with ?p) (query_url (provider_with ?p) ''WTI'' ''daily'')
      = Inr (response_with 200 ?p)"
    by (simp add: provider_with_def answering_simps)
  have h3: "body (response_with 200 ?p) = WellFormed (Object (data_with ?p))"
    by (simp add: response_with_simps)
  have h4: "data (data_with ?p) = Points (series ?p)"
    by (simp add: response_with_simps)
  have h5: "series ?p \<noteq> []"
    by (simp add: series_simps)
  from fetchAnalysis_trend[OF h1 h2 h3 h4 h5, of exact] obtain a where
    res: "fetchAnalysis exact (provider_with ?p) ''wti'' = Inr (Some a)" and
    d7: "day7 (changes a) = map_option (rounded2 exact) (change_unrounded exact ?ps 7)" and
    d30: "day30 (changes a) = map_option (rounded2 exact) (change_unrounded exact ?ps 30)" and
    cls: "\<forall>c7 c30. change_unrounded exact ?ps 7 = Some c7
                 \<and> change_unrounded exact ?ps 30 = Some c30
               \<longrightarrow> (trend (signal a) = bullish
                      \<longleftrightarrow> num_lt exact (num_lit exact 2) c7 \<and> num_lt exact (num_lit exact 0) c30)
                 \<and> (trend (signal a) = bearish
                      \<longleftrightarrow> num_lt exact c7 (num_lit exact (- 2)) \<and> num_lt exact c30 (num_lit exact 0)
                          \<and> \<not> (num_lt exact (num_lit exact 2) c7 \<and> num_lt exact (num_lit exact 0) c30))
                 \<and> (trend (signal a) = neutral
                      \<longleftrightarrow> \<not> (num_lt exact (num_lit exact 2) c7 \<and> num_lt exact (num_lit exact 0) c30)
                          \<and> \<not> (num_lt exact c7 (num_lit exact (- 2)) \<and> num_lt exact c30 (num_lit exact 0)))"
    by blast
  have c: "change_unrounded exact ?ps 7 = Some (1025 / 512)"
    "change_unrounded exact ?ps 30 = Some (1025 / 512)"
    by (simp_all only: ps trend_example_changes)
  from cls[rule_format, of "1025 / 512" "1025 / 512"] c
  have "trend (signal a) = bullish" by (simp add: exact_simps)
  moreover from d7 d30 c have "day7 (changes a) = Some 2" "day30 (changes a) = Some 2"
    by (simp_all add: trend_example_changes(3))
  ultimately show ?thesis using res by blast
qed

text \<open>
  C5, as the claim has it, fails. A series of 31 points, 66848 followed by 65536
  thirty times: both changes are 1312 / 65536 * 100 = 2.001953125, so the trend is
  bullish, while the result reports \<open>day7 = 2\<close> and \<open>day30 = 2\<close>, and 2 is not above 2:
  read off the reported changes, the trend would be neutral. Every number here is a
  binary fraction, so the doubles compute the same values.
\<close>

theorem trend_counterexample:
  "map_option (\<lambda>a. trend (signal a))
     (analysis_result
        (fetchAnalysis exact (provider_with (''66848'' # replicate 30 ''65536'')) ''wti''))
     = Some bullish
   \<and> map_option (\<lambda>a. day7 (changes a))
     (analysis_result
        (fetchAnalysis exact (provider_with (''66848'' # replicate 30 ''65536'')) ''wti''))
     = Some (Some 2)
   \<and> map_option (\<lambda>a. day30 (changes a))
     (analysis_result
        (fetchAnalysis exact (provider_with (''66848'' # replicate 30 ''65536'')) ''wti''))
     = Some (Some 2)
   \<and> getTrend exact (Some 2) (Some 2) = neutral"
  by (simp add: fetchAnalysis_def property_own json_def Let_def analysis_result_def
      provider_with_def answering_simps response_with_simps series_simps series_def
      known_symbol toLowerCase_examples calculateChange_def getTrend_def round_field_def
      exact_simps read_digits_examples nth_Cons')




text \<open>
  C7. For every interval and every provider, \<^verbatim>\<open>fetchAllCommodities\<close> returns a
  mapping and never rejects. The mapping has one entry for each symbol of the
  catalog, that is for each key of \<^verbatim>\<open>COMMODITIES\<close> but the aggregate \<open>all\<close>, which the
  loop leaves out. Each entry is decided by the fetch of its own symbol alone: an
  error marker with the message when that fetch throws, the marker
  \<open>No data available\<close> when it returns null, the price otherwise.
\<close>

theorem fetchAllCommodities_isolates_failures:
  "\<exists>results. fetchAllCommodities A env ival = Inr results
     \<and> dom results = set (Object_keys COMMODITIES) - {''all''}
     \<and> (\<forall>c \<in> dom results. results c = Some (entry_of A env ival c))
     \<and> (\<forall>c e. c \<in> dom results \<and> fetchCommodity A env c ival = Inl e
          \<longrightarrow> results c = Some (ErrorMarker (message e)))
     \<and> (\<forall>c d. c \<in> dom results \<and> fetchCommodity A env c ival = Inr (Some d)
          \<longrightarrow> results c = Some (Price d))"
proof (intro exI[of _ "batch_result A env ival"] conjI ballI allI impI)
  show "fetchAllCommodities A env ival = Inr (batch_result A env ival)"
    by (rule fetchAllCommodities_batch_result)
  show "dom (batch_result A env ival) = set (Object_keys COMMODITIES) - {''all''}"
    by (rule dom_batch_result)
next
  fix c assume "c \<in> dom (batch_result A env ival)"
  then show "batch_result A env ival c = Some (entry_of A env ival c)"
    by (rule batch_result_entry)
next
  fix c e
  assume "c \<in> dom (batch_result A env ival) \<and> fetchCommodity A env c ival = Inl e"
  then show "batch_result A env ival c = Some (ErrorMarker (message e))"
    by (simp add: batch_result_entry entry_of_def)
next
  fix c d
  assume "c \<in> dom (batch_result A env ival) \<and> fetchCommodity A env c ival = Inr (Some d)"
  then show "batch_result A env ival c = Some (Price d)"
    by (simp add: batch_result_entry entry_of_def)
qed

text \<open>The request for Brent, the second symbol, fails: Brent gets the error marker,
  the symbols before and after it get their prices.\<close>

theorem fetchAllCommodities_isolates_failures_witness:
  "\<exists>results. fetchAllCommodities exact brent_down daily = Inr results
     \<and> results ''wti'' =
         Some (Price \<lparr>p_name = ''Crude Oil Prices WTI'', price = 75,
                      p_unit = ''dollars per barrel'', p_date = ''2024-01-02'',
                      p_interval = ''daily''\<rparr>)
     \<and> results ''brent'' = Some (ErrorMarker ''fetch failed'')
     \<and> results ''sugar'' =
         Some (Price \<lparr>p_name = ''Crude Oil Prices WTI'', price = 75,
                      p_unit = ''dollars per barrel'', p_date = ''2024-01-02'',
                      p_interval = ''daily''\<rparr>)
     \<and> results ''all'' = None"
proof -
  from fetchAllCommodities_isolates_failures[of exact brent_down daily] obtain results where
    res: "fetchAllCommodities exact brent_down daily = Inr results" and
    d: "dom results = set (Object_keys COMMODITIES) - {''all''}" and
    err: "\<forall>c e. c \<in> dom results \<and> fetchCommodity exact brent_down c daily = Inl e
          \<longrightarrow> results c = Some (ErrorMarker (message e))" and
    ok: "\<forall>c d. c \<in> dom results \<and> fetchCommodity exact brent_down c daily = Inr (Some d)
          \<longrightarrow> results c = Some (Price d)"
    by blast
  have mem: "''wti'' \<in> dom results" "''brent'' \<in> dom results" "''sugar'' \<in> dom results"
    "''all'' \<notin> dom results"
    by (simp_all add: d Object_keys_def COMMODITIES_def)
  from mem(4) have "results ''all'' = None" by (simp add: dom_def)
  moreover from err[rule_format, of "''brent''"] mem(2) brent_down_fetches(2)
  have "results ''brent'' = Some (ErrorMarker ''fetch failed'')" by simp
  moreover from ok[rule_format, of "''wti''"] mem(1) brent_down_fetches(1)
  have "results ''wti'' = Some (Price \<lparr>p_name = ''Crude Oil Prices WTI'', price = 75,
                      p_unit = ''dollars per barrel'', p_date = ''2024-01-02'',
                      p_interval = ''daily''\<rparr>)" by simp
  moreover from ok[rule_format, of "''sugar''"] mem(3) brent_down_fetches(3)
  have "results ''sugar'' = Some (Price \<lparr>p_name = ''Crude Oil Prices WTI'', price = 75,
                      p_unit = ''dollars per barrel'', p_date = ''2024-01-02'',
                      p_interval = ''daily''\<rparr>)" by simp
  ultimately show ?thesis using res by blast
qed

text \<open>
  C8. \<^verbatim>\<open>Cache.getAge\<close> returns null when the key has no entry, and otherwise the whole
  seconds between the entry's timestamp and now, rounded down: 0 for an entry less
  than a second old. It returns the store and the world as they were. The ttl has no
  part in the result: the age is the same for every ttl the entry could have, and an
  entry that is no longer fresh still has an age.
\<close>

theorem Cache_getAge_pure_read:
  "Cache_getAge Date_now key (store, w) =
     (case store key of
        None \<Rightarrow> (None, store, w)
      | Some entry \<Rightarrow> (Some ((Date_now w - timestamp entry) div 1000), store, w))
   \<and> (\<forall>entry. store key = Some entry \<and> 0 \<le> Date_now w - timestamp entry
         \<and> Date_now w - timestamp entry < 1000
       \<longrightarrow> fst (Cache_getAge Date_now key (store, w)) = Some 0)
   \<and> (\<forall>entry t. store key = Some entry
       \<longrightarrow> fst (Cache_getAge Date_now key (store(key \<mapsto> entry\<lparr>ttlMs := t\<rparr>), w))
             = fst (Cache_getAge Date_now key (store, w)))
   \<and> (\<not> fresh Date_now store key w \<and> store key \<noteq> None
       \<longrightarrow> fst (Cache_getAge Date_now key (store, w)) \<noteq> None)"
  by (auto simp add: Cache_getAge_def fresh_def whole_seconds simp del: of_int_diff
      split: option.splits)

text \<open>An entry stamped 0 with a ttl of 1000 ms: its age is 2 at time 2999, long after
  it has expired, and 0 at time 999; a key with no entry has no age.\<close>

theorem Cache_getAge_pure_read_witness:
  "Cache_getAge (\<lambda>t. t) ''all:daily''
     ([''all:daily'' \<mapsto> \<lparr>entry_data = ''old value'', timestamp = 0, ttlMs = 1000\<rparr>], 2999)
   = (Some 2, [''all:daily'' \<mapsto> \<lparr>entry_data = ''old value'', timestamp = 0, ttlMs = 1000\<rparr>],
      2999)
   \<and> fst (Cache_getAge (\<lambda>t. t) ''all:daily''
     ([''all:daily'' \<mapsto> \<lparr>entry_data = ''old value'', timestamp = 0, ttlMs = 1000\<rparr>], 999))
   = Some 0
   \<and> Cache_getAge (\<lambda>t. t) ''index'' (Map.empty :: string store, 2999) = (None, Map.empty, 2999)"
proof -
  let ?s = "[''all:daily'' \<mapsto>
      \<lparr>entry_data = ''old value'', timestamp = 0, ttlMs = (1000::int)\<rparr>]"
  have "Cache_getAge (\<lambda>t. t) ''all:daily'' (?s, 2999) = (Some 2, ?s, 2999)"
    using Cache_getAge_pure_read[of "\<lambda>t. t" "''all:daily''" ?s 2999, THEN conjunct1] by simp
  moreover have "fst (Cache_getAge (\<lambda>t. t) ''all:daily'' (?s, 999)) = Some 0"
    using Cache_getAge_pure_read[of "\<lambda>t. t" "''all:daily''" ?s 999, THEN conjunct2,
        THEN conjunct1, rule_format,
        of "\<lparr>entry_data = ''old value'', timestamp = 0, ttlMs = 1000\<rparr>"] by simp
  moreover have "Cache_getAge (\<lambda>t. t) ''index'' (Map.empty :: string store, 2999)
      = (None, Map.empty, 2999)"
    using Cache_getAge_pure_read[of "\<lambda>t. t" "''index''" "Map.empty :: string store" 2999,
        THEN conjunct1] by simp
  ultimately show ?thesis by simp
qed

text \<open>
  C9. When \<^verbatim>\<open>Cache.get\<close> finds no fresh entry and the producer rejects, the call
  rejects with the producer's error and returns the store exactly as it was: no entry
  is written, and an expired entry under the key stays.
\<close>

theorem Cache_get_producer_rejects:
  assumes "\<not> fresh Date_now store key w" and "fetcher w = (Inl e, w')"
  shows "Cache_get Date_now key fetcher ttl (store, w) = (Inl e, store, w')"
  using assms by (simp add: Cache_get_miss)

theorem Cache_get_producer_rejects_witness:
  "Cache_get (\<lambda>t. t) ''all:daily'' failing_producer 1000
     ([''all:daily'' \<mapsto> \<lparr>entry_data = ''old value'', timestamp = 0, ttlMs = 1000\<rparr>], 2000)
   = (Inl (TypeError ''fetch failed''),
      [''all:daily'' \<mapsto> \<lparr>entry_data = ''old value'', timestamp = 0, ttlMs = 1000\<rparr>], 2005)"
  using Cache_get_producer_rejects[of "\<lambda>t. t"
      "[''all:daily'' \<mapsto> \<lparr>entry_data = ''old value'', timestamp = 0, ttlMs = 1000\<rparr>]"
      "''all:daily''" 2000 failing_producer "TypeError ''fetch failed''" 2005 1000]
  by (simp add: fresh_def failing_producer_def)

text \<open>
  C10. The key \<open>all\<close> is in \<^verbatim>\<open>COMMODITIES\<close> and not in \<^verbatim>\<open>COMMODITY_INFO\<close>. So
  \<^verbatim>\<open>fetchAnalysis\<close> does not take \<open>all\<close> for an unknown symbol: when it returns null
  for it, the provider's body was no object or its series was missing or empty, and
  on a series that is not empty it returns an analysis whose category is \<open>Unknown\<close>. \<^verbatim>\<open>fetchCommodity\<close> and
  \<^verbatim>\<open>fetchHistorical\<close> accept \<open>all\<close> as well. Only \<^verbatim>\<open>fetchAllCommodities\<close> leaves it
  out: its result has no entry for \<open>all\<close>.
\<close>

theorem all_is_a_catalog_key:
  "map_of COMMODITIES (toLowerCase ''all'') = Some ''ALL_COMMODITIES''
   \<and> map_of COMMODITY_INFO (toLowerCase ''all'') = None
   \<and> (fetchAnalysis A env ''all'' = Inr None
        \<longrightarrow> (\<exists>res. fetch env (query_url env ''ALL_COMMODITIES'' ''daily'') = Inr res
               \<and> (body res = WellFormed NotAnObject
                   \<or> (\<exists>d. body res = WellFormed (Object d)
                          \<and> (data d = NoData \<or> data d = Points [])))))
   \<and> (\<forall>res d ds. fetch env (query_url env ''ALL_COMMODITIES'' ''daily'') = Inr res
          \<and> body res = WellFormed (Object d) \<and> data d = Points ds \<and> ds \<noteq> []
        \<longrightarrow> (\<exists>a. fetchAnalysis A env ''all'' = Inr (Some a)
               \<and> commodity a = ''all'' \<and> a_category a = ''Unknown'')
          \<and> (\<exists>p. fetchCommodity A env ''all'' daily = Inr (Some p))
          \<and> (\<exists>h. fetchHistorical A env ''all'' daily limit = Inr (Some h)))
   \<and> ''all'' \<in> set (Object_keys COMMODITIES)
   \<and> ''all'' \<notin> set (filter (\<lambda>k. k \<noteq> ''all'') (Object_keys COMMODITIES))
   \<and> (\<exists>results. fetchAllCommodities A env ival = Inr results \<and> results ''all'' = None)"
proof (intro conjI allI impI)
  have own: "property env COMMODITIES ''all'' = Some ''ALL_COMMODITIES''"
    by (simp add: property_own known_symbol)
  show "map_of COMMODITIES (toLowerCase ''all'') = Some ''ALL_COMMODITIES''"
    by (simp add: toLowerCase_examples known_symbol)
  show "map_of COMMODITY_INFO (toLowerCase ''all'') = None"
    by (simp add: toLowerCase_examples known_symbol)
  show "''all'' \<in> set (Object_keys COMMODITIES)"
    by (simp add: Object_keys_def COMMODITIES_def)
  show "''all'' \<notin> set (filter (\<lambda>k. k \<noteq> ''all'') (Object_keys COMMODITIES))"
    by simp
  show "\<exists>results. fetchAllCommodities A env ival = Inr results \<and> results ''all'' = None"
    by (rule exI[of _ "batch_result A env ival"])
       (simp add: fetchAllCommodities_batch_result batch_result_def)
  {
    assume "fetchAnalysis A env ''all'' = Inr None"
    then show "\<exists>res. fetch env (query_url env ''ALL_COMMODITIES'' ''daily'') = Inr res
               \<and> (body res = WellFormed NotAnObject
                   \<or> (\<exists>d. body res = WellFormed (Object d)
                          \<and> (data d = NoData \<or> data d = Points [])))"
      by (auto simp add: fetchAnalysis_def own json_def Let_def toLowerCase_examples
          split: sum.splits body.splits json_value.splits series_field.splits list.splits)
  }
  fix res d ds
  assume a: "fetch env (query_url env ''ALL_COMMODITIES'' ''daily'') = Inr res
          \<and> body res = WellFormed (Object d) \<and> data d = Points ds \<and> ds \<noteq> []"
  then obtain latest rest where ds: "ds = latest # rest" by (cases ds) auto
  show "\<exists>a. fetchAnalysis A env ''all'' = Inr (Some a)
               \<and> commodity a = ''all'' \<and> a_category a = ''Unknown''"
    using a unfolding ds
    by (simp add: fetchAnalysis_def own json_def Let_def toLowerCase_examples known_symbol)
  show "\<exists>p. fetchCommodity A env ''all'' daily = Inr (Some p)"
    using a unfolding ds
    by (simp add: fetchCommodity_def own json_def toLowerCase_examples)
  show "\<exists>h. fetchHistorical A env ''all'' daily limit = Inr (Some h)"
    using a unfolding ds
    by (simp add: fetchHistorical_def own json_def toLowerCase_examples)
qed

theorem all_is_a_catalog_key_witness:
  "(\<exists>a. fetchAnalysis exact (provider_with [''181'', ''180'']) ''all'' = Inr (Some a)
        \<and> commodity a = ''all'' \<and> a_category a = ''Unknown'')
   \<and> (\<exists>p. fetchCommodity exact (provider_with [''181'', ''180'']) ''all'' daily = Inr (Some p))
   \<and> (\<exists>h. fetchHistorical exact (provider_with [''181'', ''180'']) ''all'' daily 12
            = Inr (Some h))"
proof -
  let ?e = "provider_with [''181'', ''180'']"
  have pre: "fetch ?e (query_url ?e ''ALL_COMMODITIES'' ''daily'')
        = Inr (response_with 200 [''181'', ''180''])
      \<and> body (response_with 200 [''181'', ''180''])
        = WellFormed (Object (data_with [''181'', ''180'']))
      \<and> data (data_with [''181'', ''180'']) = Points (series [''181'', ''180''])
      \<and> series [''181'', ''180''] \<noteq> []"
    by (simp add: provider_with_def answering_simps response_with_simps series_simps)
  from all_is_a_catalog_key[of exact ?e 12 daily, THEN conjunct2, THEN conjunct2,
      THEN conjunct2, THEN conjunct1, rule_format, OF pre]
  show ?thesis .
qed

end
